theory Spec2Isabelle
  imports Complex_Main "HOL-Library.Char_ord" "HOL-Library.List_Lexorder"
begin

section \<open>Python values\<close>

text \<open>
  The predictive engine of \<^verbatim>\<open>ml-service\<close> computes with Python floats, ints and
  bools, read from dictionaries whose entries may also hold strings or nested
  structures. A Python number (bool, int or float; Python's \<^verbatim>\<open>==\<close> identifies
  \<^verbatim>\<open>True\<close>, \<^verbatim>\<open>1\<close> and \<^verbatim>\<open>1.0\<close>) is modelled by its real value: floating-point
  rounding, infinities and NaN are outside the model. A string is \<open>Str\<close>; anything
  else (a nested dict, a list, \<^verbatim>\<open>None\<close>) is \<open>Other\<close>.
\<close>

datatype pyval = Num real | Str string | Other

datatype error = TypeError

text \<open>
  A dictionary keeps insertion order (\<^verbatim>\<open>list(features.values())\<close> reads it), so it is
  an association list; the first entry of a key is the entry.
\<close>

type_synonym pydict = "(string \<times> pyval) list"

definition dict_get :: "pydict \<Rightarrow> string \<Rightarrow> pyval \<Rightarrow> pyval" where
  "dict_get d k dflt = (case map_of d k of None \<Rightarrow> dflt | Some v \<Rightarrow> v)"

text \<open>\<^verbatim>\<open>d[k] = v\<close>: an existing key keeps its position, a new key goes last.\<close>

fun dict_set :: "pydict \<Rightarrow> string \<Rightarrow> pyval \<Rightarrow> pydict" where
  "dict_set [] k v = [(k, v)]"
| "dict_set ((k', v') # d) k v =
     (if k' = k then (k, v) # d else (k', v') # dict_set d k v)"

text \<open>\<^verbatim>\<open>d.update(u)\<close> stores the entries of \<open>u\<close> in their order.\<close>

fun dict_update :: "pydict \<Rightarrow> pydict \<Rightarrow> pydict" where
  "dict_update d [] = d"
| "dict_update d ((k, v) # u) = dict_update (dict_set d k v) u"

text \<open>
  Truthiness of an \<^verbatim>\<open>Optional[Dict]\<close>: \<^verbatim>\<open>None\<close> and the empty dictionary are
  false.
\<close>

fun truthy :: "pydict option \<Rightarrow> bool" where
  "truthy None = False"
| "truthy (Some d) = (d \<noteq> [])"

text \<open>
  \<^verbatim>\<open>v > c\<close> and \<^verbatim>\<open>v < c\<close> for a number \<open>c\<close>: Python 3 raises \<^verbatim>\<open>TypeError\<close> when
  \<open>v\<close> is not a number.
\<close>

fun py_gt :: "pyval \<Rightarrow> real \<Rightarrow> error + bool" where
  "py_gt (Num r) c = Inr (c < r)"
| "py_gt (Str s) c = Inl TypeError"
| "py_gt Other c = Inl TypeError"

fun py_lt :: "pyval \<Rightarrow> real \<Rightarrow> error + bool" where
  "py_lt (Num r) c = Inr (r < c)"
| "py_lt (Str s) c = Inl TypeError"
| "py_lt Other c = Inl TypeError"

section \<open>Risk levels and seasons\<close>

text \<open>\<^verbatim>\<open>PredictiveModels._get_risk_level\<close> (services/ml\_models.py).\<close>

definition ml_get_risk_level :: "real \<Rightarrow> string" where
  "ml_get_risk_level risk_score =
     (if risk_score \<ge> 0.8 then ''critical''
      else if risk_score \<ge> 0.6 then ''high''
      else if risk_score \<ge> 0.4 then ''medium''
      else ''low'')"

text \<open>\<^verbatim>\<open>VisualizationService._get_risk_level\<close> (services/visualization.py).\<close>

definition viz_get_risk_level :: "real \<Rightarrow> string" where
  "viz_get_risk_level risk_score =
     (if risk_score \<ge> 0.8 then ''critical''
      else if risk_score \<ge> 0.6 then ''high''
      else if risk_score \<ge> 0.4 then ''medium''
      else ''low'')"

text \<open>\<^verbatim>\<open>PredictiveModels._get_season\<close>: the season as a number.\<close>

definition ml_get_season :: "int \<Rightarrow> int" where
  "ml_get_season month =
     (if month \<in> set [12, 1, 2] then 0
      else if month \<in> set [3, 4, 5] then 1
      else if month \<in> set [6, 7, 8] then 2
      else 3)"

text \<open>\<^verbatim>\<open>DataProcessor._get_season\<close>: the season as a name.\<close>

definition dp_get_season :: "int \<Rightarrow> string" where
  "dp_get_season month =
     (if month \<in> set [12, 1, 2] then ''Winter''
      else if month \<in> set [3, 4, 5] then ''Spring''
      else if month \<in> set [6, 7, 8] then ''Summer''
      else ''Fall'')"

text \<open>\<^verbatim>\<open>DataProcessor._get_time_of_day\<close>.\<close>

definition get_time_of_day :: "int \<Rightarrow> string" where
  "get_time_of_day hour =
     (if 5 \<le> hour \<and> hour < 12 then ''Morning''
      else if 12 \<le> hour \<and> hour < 17 then ''Afternoon''
      else if 17 \<le> hour \<and> hour < 21 then ''Evening''
      else ''Night'')"

section \<open>Location inference adapter\<close>

record location =
  lat :: real
  lng :: real

text \<open>
  What the adapter reads from \<^verbatim>\<open>datetime.now()\<close>: \<^verbatim>\<open>weekday()\<close>, \<^verbatim>\<open>month\<close> and
  \<^verbatim>\<open>hour\<close>. The source reads the clock once per feature; the model passes one
  reading.
\<close>

record clock =
  now_weekday :: int
  now_month :: int
  now_hour :: int

text \<open>
  The weather block of \<^verbatim>\<open>_extract_location_features\<close>, run when \<^verbatim>\<open>weather_data\<close> is
  truthy. The comparisons raise on a value that is not a number; \<^verbatim>\<open>or\<close> evaluates its
  second operand only when the first is false.
\<close>

definition weather_features :: "pydict \<Rightarrow> error + pydict" where
  "weather_features w =
     (let p = dict_get w ''precipitation'' (Num 0);
          t = dict_get w ''temperature'' (Num 25);
          h = dict_get w ''humidity'' (Num 50)
      in case py_gt p 20 of
           Inl e \<Rightarrow> Inl e
         | Inr heavy \<Rightarrow>
            (case py_gt t 35 of
               Inl e \<Rightarrow> Inl e
             | Inr hot \<Rightarrow>
                (case (if hot then Inr True else py_lt t 5) of
                   Inl e \<Rightarrow> Inl e
                 | Inr extreme \<Rightarrow>
                     Inr [(''precipitation'', p), (''temperature'', t), (''humidity'', h),
                          (''heavy_rain'', Num (if heavy then 1 else 0)),
                          (''extreme_temp'', Num (if extreme then 1 else 0))])))"

text \<open>The historical block, run when \<^verbatim>\<open>historical_context\<close> is truthy.\<close>

definition historical_features :: "pydict \<Rightarrow> pydict" where
  "historical_features h =
     [(''total_issues'', dict_get h ''total_issues'' (Num 0)),
      (''avg_resolution_time'', dict_get h ''avg_resolution_time'' (Num 3)),
      (''trend_increasing'',
         Num (if dict_get h ''recent_trend'' Other = Str ''increasing'' then 1 else 0))]"

definition distance_from_center :: "real \<Rightarrow> real \<Rightarrow> real" where
  "distance_from_center la lo = sqrt ((la - 23.3441)\<^sup>2 + (lo - 85.3096)\<^sup>2)"

definition base_features :: "location \<Rightarrow> clock \<Rightarrow> pydict" where
  "base_features loc now =
     [(''latitude'', Num (lat loc)),
      (''longitude'', Num (lng loc)),
      (''distance_from_center'', Num (distance_from_center (lat loc) (lng loc))),
      (''is_weekend'', Num (if now_weekday now \<in> set [5, 6] then 1 else 0)),
      (''month'', Num (of_int (now_month now))),
      (''hour'', Num (of_int (now_hour now))),
      (''season'', Num (of_int (ml_get_season (now_month now))))]"

text \<open>\<^verbatim>\<open>PredictiveModels._extract_location_features\<close>.\<close>

definition extract_location_features ::
  "location \<Rightarrow> pydict option \<Rightarrow> pydict option \<Rightarrow> clock \<Rightarrow> error + pydict" where
  "extract_location_features loc weather_data historical_context now =
     (let features = base_features loc now
      in case (case weather_data of
                 None \<Rightarrow> Inr features
               | Some w \<Rightarrow>
                   if truthy weather_data
                   then (case weather_features w of
                           Inl e \<Rightarrow> Inl e
                         | Inr entries \<Rightarrow> Inr (dict_update features entries))
                   else Inr features) of
           Inl e \<Rightarrow> Inl e
         | Inr features' \<Rightarrow>
            (case historical_context of
               None \<Rightarrow> Inr features'
             | Some h \<Rightarrow>
                 if truthy historical_context
                 then Inr (dict_update features' (historical_features h))
                 else Inr features'))"

section \<open>Prediction items\<close>

text \<open>
  The reasoning of an item is an f-string; it is kept as its parts, a percentage
  (\<^verbatim>\<open>{x:.1%}\<close>) unrendered.
\<close>

datatype fpart = Lit string | Percent1 real

record prediction =
  category :: string
  probability :: real
  confidence :: real
  risk_score :: real
  reasoning :: "fpart list"
  recommended_actions :: "string list"
  timeframe :: string

text \<open>\<^verbatim>\<open>_get_recommended_actions\<close>: the action map, with its default.\<close>

definition action_map :: "(string \<times> string list) list" where
  "action_map =
     [(''Road & Pothole Issues'', [''Inspect roads'', ''Schedule repairs'', ''Traffic management'']),
      (''Water Supply'', [''Check water pressure'', ''Monitor quality'', ''Emergency backup'']),
      (''Waste Management'', [''Schedule collection'', ''Monitor bins'', ''Public awareness'']),
      (''Streetlight Problems'', [''Check electrical systems'', ''Replace bulbs'', ''Schedule maintenance'']),
      (''Sewage & Drainage'', [''Inspect drains'', ''Clear blockages'', ''System maintenance'']),
      (''Public Safety'', [''Increase patrols'', ''Community engagement'', ''Emergency planning'']),
      (''Parks & Recreation'', [''Maintenance check'', ''Safety inspection'', ''Public notification'']),
      (''Traffic Management'', [''Traffic monitoring'', ''Signal optimization'', ''Route planning''])]"

definition get_recommended_actions :: "string \<Rightarrow> string list" where
  "get_recommended_actions c =
     (case map_of action_map c of
        None \<Rightarrow> [''Monitor situation'', ''Prepare response plan'']
      | Some a \<Rightarrow> a)"

definition get_risk_actions :: "real \<Rightarrow> string list" where
  "get_risk_actions r =
     (if r \<ge> 0.8 then [''Immediate action required'', ''Deploy emergency resources'', ''Public alert'']
      else if r \<ge> 0.6 then [''High priority monitoring'', ''Prepare response team'', ''Preventive measures'']
      else if r \<ge> 0.4 then [''Regular monitoring'', ''Schedule inspections'', ''Maintenance planning'']
      else [''Routine monitoring'', ''Standard procedures''])"

section \<open>Model registry and fusion\<close>

text \<open>
  The trained models are objects of scikit-learn and Keras; the model takes what the
  engine calls on them as functions of the feature values, \<open>None\<close> when the call
  raises. A classifier gives its classes with their probabilities, in the order of
  \<^verbatim>\<open>classes_\<close>; a regressor gives one number.
\<close>

datatype model =
    Classifier "pyval list \<Rightarrow> (string \<times> real) list option"
  | Regressor "pyval list \<Rightarrow> real option"
  | SequenceForecaster
  | OutlierDetector

type_synonym scaler = "pyval list \<Rightarrow> pyval list option"

text \<open>
  \<^verbatim>\<open>PredictiveModels\<close>: \<^verbatim>\<open>self.models\<close> and \<^verbatim>\<open>self.scalers\<close>. The label encoders, the
  feature column list and the metrics are written by training and read by no
  prediction; they are not part of the model.
\<close>

record engine =
  models :: "string \<rightharpoonup> model"
  scalers :: "string \<rightharpoonup> scaler"

definition category_item :: "string \<times> real \<Rightarrow> prediction" where
  "category_item cp =
     \<lparr>category = fst cp, probability = snd cp, confidence = snd cp,
      risk_score = snd cp * 0.8,
      reasoning = [Lit ''Historical pattern suggests '', Percent1 (snd cp),
                   Lit '' chance of '', Lit (fst cp)],
      recommended_actions = get_recommended_actions (fst cp),
      timeframe = ''7_days''\<rparr>"

text \<open>
  \<^verbatim>\<open>sorted(predictions, key=lambda x: x['probability'], reverse=True)\<close>: descending,
  equal keys in their original order.
\<close>

definition sort_desc :: "prediction list \<Rightarrow> prediction list" where
  "sort_desc ps = sort_key (\<lambda>p. - probability p) ps"

text \<open>
  \<^verbatim>\<open>_predict_categories\<close>. The feature values go to the scaler and the classifier in
  the order of the feature dictionary; whatever raises inside is caught and gives the
  empty list, as does an object under \<^verbatim>\<open>'issue_classifier'\<close> with no
  \<^verbatim>\<open>predict_proba\<close>.
\<close>

definition predict_categories :: "engine \<Rightarrow> pydict \<Rightarrow> prediction list" where
  "predict_categories eng features =
     (case models eng ''issue_classifier'' of
        None \<Rightarrow> []
      | Some (Classifier predict_proba) \<Rightarrow>
          (let feature_array = map snd features
           in case (case scalers eng ''issue_classifier'' of
                      None \<Rightarrow> Some feature_array
                    | Some transform \<Rightarrow> transform feature_array) of
                None \<Rightarrow> []
              | Some scaled \<Rightarrow>
                 (case predict_proba scaled of
                    None \<Rightarrow> []
                  | Some probabilities \<Rightarrow>
                      take 5 (sort_desc (map category_item
                                (filter (\<lambda>cp. snd cp > 0.1) probabilities)))))
      | Some _ \<Rightarrow> [])"

definition risk_item :: "real \<Rightarrow> prediction" where
  "risk_item r =
     \<lparr>category = ''Overall Risk'', probability = r, confidence = 0.7, risk_score = r,
      reasoning = [Lit ''ML model predicts '', Percent1 r,
                   Lit '' overall risk based on location and context''],
      recommended_actions = get_risk_actions r,
      timeframe = ''7_days''\<rparr>"

text \<open>\<^verbatim>\<open>_predict_risk_scores\<close>: the regressor's value, clamped to 0..1.\<close>

definition predict_risk_scores :: "engine \<Rightarrow> pydict \<Rightarrow> prediction list" where
  "predict_risk_scores eng features =
     (case models eng ''risk_regressor'' of
        None \<Rightarrow> []
      | Some (Regressor predict) \<Rightarrow>
          (case predict (map snd features) of
             None \<Rightarrow> []
           | Some v \<Rightarrow> [risk_item (max 0 (min 1 v))])
      | Some _ \<Rightarrow> [])"

text \<open>\<^verbatim>\<open>_predict_time_series\<close>.\<close>

definition predict_time_series :: "location \<Rightarrow> string \<Rightarrow> prediction list" where
  "predict_time_series loc tf =
     [\<lparr>category = ''Time Series Prediction'', probability = 0.3, confidence = 0.6,
       risk_score = 0.3,
       reasoning = [Lit ''Time series analysis suggests moderate risk over '', Lit tf],
       recommended_actions = [''Monitor trends closely'', ''Prepare contingency plans''],
       timeframe = tf\<rparr>]"

definition water_supply_item :: prediction where
  "water_supply_item =
     \<lparr>category = ''Water Supply'', probability = 0.7, confidence = 0.8, risk_score = 0.7,
      reasoning = [Lit ''Heavy rainfall predicted, high risk of water-related issues''],
      recommended_actions = [''Check drainage systems'', ''Monitor water levels'',
                             ''Prepare emergency response''],
      timeframe = ''7_days''\<rparr>"

definition road_item :: prediction where
  "road_item =
     \<lparr>category = ''Road & Pothole Issues'', probability = 0.4, confidence = 0.6,
      risk_score = 0.4,
      reasoning = [Lit ''General risk assessment based on location and historical data''],
      recommended_actions = [''Regular road inspections'', ''Preventive maintenance''],
      timeframe = ''7_days''\<rparr>"

text \<open>
  \<^verbatim>\<open>_generate_fallback_predictions\<close>. \<^verbatim>\<open>and\<close> compares the precipitation only when
  the weather dictionary is truthy; the comparison raises on a value that is not a
  number.
\<close>

definition generate_fallback_predictions ::
  "location \<Rightarrow> pydict option \<Rightarrow> error + prediction list" where
  "generate_fallback_predictions loc weather_data =
     (case weather_data of
        None \<Rightarrow> Inr [road_item]
      | Some w \<Rightarrow>
          if truthy weather_data
          then (case py_gt (dict_get w ''precipitation'' (Num 0)) 20 of
                  Inl e \<Rightarrow> Inl e
                | Inr heavy \<Rightarrow>
                    Inr ((if heavy then [water_supply_item] else []) @ [road_item]))
          else Inr [road_item])"

text \<open>
  \<^verbatim>\<open>predict_issues\<close>. An exception in the body is caught and answered with the
  fallback predictions; an exception of the fallback itself, raised in the handler,
  leaves the function.
\<close>

definition predict_issues ::
  "engine \<Rightarrow> location \<Rightarrow> pydict option \<Rightarrow> pydict option \<Rightarrow> string \<Rightarrow> clock
     \<Rightarrow> error + prediction list" where
  "predict_issues eng loc weather_data historical_context tf now =
     (case extract_location_features loc weather_data historical_context now of
        Inl e \<Rightarrow> generate_fallback_predictions loc weather_data
      | Inr features \<Rightarrow>
          (let predictions =
                 (if models eng ''issue_classifier'' \<noteq> None
                  then predict_categories eng features else [])
               @ (if models eng ''risk_regressor'' \<noteq> None
                  then predict_risk_scores eng features else [])
               @ (if models eng ''time_series'' \<noteq> None \<and> truthy historical_context
                  then predict_time_series loc tf else [])
           in if predictions = []
              then generate_fallback_predictions loc weather_data
              else Inr predictions))"

section \<open>Overall risk\<close>

record risk_area =
  ra_location :: location
  ra_risk_level :: string
  ra_risk_score :: real
  ra_predicted_issues :: "string list"
  ra_population_density :: real

text \<open>\<^verbatim>\<open>np.mean\<close> of a list; the engine calls it on non-empty lists only.\<close>

definition np_mean :: "real list \<Rightarrow> real" where
  "np_mean xs = sum_list xs / real (length xs)"





section \<open>Spatial risk scanner\<close>

text \<open>
  The random numbers of NumPy are a stream of draws from \<open>[0, 1)\<close>, read through a
  position; \<^verbatim>\<open>np.random.uniform(lo, hi)\<close> scales one draw.
\<close>

type_synonym rng = "nat \<Rightarrow> real"

definition uniform :: "real \<Rightarrow> real \<Rightarrow> real \<Rightarrow> real" where
  "uniform lo hi u = lo + (hi - lo) * u"

definition radians :: "real \<Rightarrow> real" where
  "radians d = d * pi / 180"

text \<open>
  \<^verbatim>\<open>_generate_location_grid\<close>: \<^verbatim>\<open>range(-2, 3)\<close> twice. NumPy's division by a zero
  cosine gives an infinity and no exception; in the model it gives 0.
\<close>

definition generate_location_grid :: "location \<Rightarrow> real \<Rightarrow> location list" where
  "generate_location_grid center radius =
     (let lat_offset = radius / 111;
          lng_offset = radius / (111 * cos (radians (lat center)))
      in concat (map (\<lambda>i. map (\<lambda>j.
                   \<lparr>lat = lat center + of_int i * lat_offset / 2,
                    lng = lng center + of_int j * lng_offset / 2\<rparr>)
                 [-2, -1, 0, 1, 2 :: int]) [-2, -1, 0, 1, 2 :: int]))"

text \<open>\<^verbatim>\<open>_calculate_location_risk\<close>, with its draw \<^verbatim>\<open>np.random.uniform(0, 0.3)\<close>.\<close>

definition calculate_location_risk :: "location \<Rightarrow> real \<Rightarrow> real" where
  "calculate_location_risk loc u =
     (let distance = distance_from_center (lat loc) (lng loc);
          base_risk = min 1 (distance * 0.5)
      in min 1 (base_risk + uniform 0 0.3 u))"

text \<open>\<^verbatim>\<open>_predict_issues_for_location\<close>, with its three draws.\<close>

definition predict_issues_for_location :: "real \<Rightarrow> real \<Rightarrow> real \<Rightarrow> string list" where
  "predict_issues_for_location u1 u2 u3 =
     (if u1 > 0.5 then [''Road & Pothole Issues''] else [])
     @ (if u2 > 0.6 then [''Water Supply''] else [])
     @ (if u3 > 0.7 then [''Waste Management''] else [])"

text \<open>
  The loop of \<^verbatim>\<open>identify_risk_areas\<close>: one draw for the risk of a location, and four
  more (three for the issues, one for the population density) when the location is
  kept.
\<close>

fun risk_area_loop :: "rng \<Rightarrow> nat \<Rightarrow> location list \<Rightarrow> risk_area list" where
  "risk_area_loop g n [] = []"
| "risk_area_loop g n (loc # locs) =
     (let risk = calculate_location_risk loc (g n)
      in if risk > 0.6
         then \<lparr>ra_location = loc,
               ra_risk_level = ml_get_risk_level risk,
               ra_risk_score = risk,
               ra_predicted_issues =
                 predict_issues_for_location (g (n + 1)) (g (n + 2)) (g (n + 3)),
               ra_population_density = uniform 100 5000 (g (n + 4))\<rparr>
              # risk_area_loop g (n + 5) locs
         else risk_area_loop g (n + 1) locs)"

text \<open>
  \<^verbatim>\<open>identify_risk_areas\<close>. On a location record nothing in the body raises, so its
  handler, which would return the empty list, is never entered.
\<close>

definition identify_risk_areas :: "rng \<Rightarrow> location \<Rightarrow> real \<Rightarrow> risk_area list" where
  "identify_risk_areas g center_location radius =
     risk_area_loop g 0 (generate_location_grid center_location radius)"

section \<open>Heatmap\<close>

record heat_point =
  hp_lat :: real
  hp_lng :: real
  hp_risk_score :: real
  hp_risk_level :: string
  hp_color :: string
  hp_intensity :: real

record bounds =
  north :: real
  south :: real
  east :: real
  west :: real

record summary =
  total_points :: nat
  avg_risk :: real
  max_risk :: real
  min_risk :: real
  high_risk_points :: nat
  critical_risk_points :: nat

record heatmap =
  heatmap_data :: "heat_point list"
  hm_bounds :: bounds
  hm_summary :: summary
  hm_center :: location
  hm_radius_km :: real
  hm_resolution :: int

definition colors :: "(string \<times> string) list" where
  "colors = [(''low'', ''#4CAF50''), (''medium'', ''#FF9800''),
             (''high'', ''#F44336''), (''critical'', ''#9C27B0'')]"

text \<open>\<^verbatim>\<open>self.colors[risk_level]\<close>; the four levels are the keys.\<close>

definition color_of :: "string \<Rightarrow> string" where
  "color_of level = (case map_of colors level of Some c \<Rightarrow> c | None \<Rightarrow> [])"

text \<open>\<^verbatim>\<open>_get_infrastructure_risk\<close>, with its draw \<^verbatim>\<open>np.random.uniform(0.3, 0.9)\<close>.\<close>

definition get_infrastructure_risk :: "real \<Rightarrow> real \<Rightarrow> real \<Rightarrow> real" where
  "get_infrastructure_risk la lo u =
     (let urban_factor =
            (if \<bar>la - 23.3441\<bar> < 0.1 \<and> \<bar>lo - 85.3096\<bar> < 0.1 then 1 else 0.6);
          age_factor = uniform 0.3 0.9 u
      in urban_factor * age_factor)"

text \<open>
  \<^verbatim>\<open>_calculate_grid_risk\<close>: its own draw \<^verbatim>\<open>np.random.uniform(0.2, 0.8)\<close>, then the
  draw of the infrastructure risk.
\<close>

definition calculate_grid_risk :: "real \<Rightarrow> real \<Rightarrow> real \<Rightarrow> real \<Rightarrow> real \<Rightarrow> real \<Rightarrow> real" where
  "calculate_grid_risk la lo center_lat center_lng u1 u2 =
     (let distance = sqrt ((la - center_lat)\<^sup>2 + (lo - center_lng)\<^sup>2);
          distance_factor = max 0 (1 - distance * 10);
          random_factor = uniform 0.2 0.8 u1;
          infrastructure_risk = get_infrastructure_risk la lo u2;
          risk = distance_factor * 0.3 + random_factor * 0.4 + infrastructure_risk * 0.3
      in min 1 risk)"

text \<open>\<^verbatim>\<open>np.linspace(a, b, n)\<close> for \<open>n \<ge> 0\<close>.\<close>

definition linspace :: "real \<Rightarrow> real \<Rightarrow> nat \<Rightarrow> real list" where
  "linspace a b n =
     (if n = 1 then [a]
      else map (\<lambda>k. a + real k * ((b - a) / real (n - 1))) [0..<n])"

definition grid_point :: "rng \<Rightarrow> real \<Rightarrow> real \<Rightarrow> nat \<Rightarrow> real \<Rightarrow> real \<Rightarrow> heat_point" where
  "grid_point g center_lat center_lng k la lo =
     (let risk = calculate_grid_risk la lo center_lat center_lng (g (2 * k)) (g (2 * k + 1));
          level = viz_get_risk_level risk
      in \<lparr>hp_lat = la, hp_lng = lo, hp_risk_score = risk, hp_risk_level = level,
          hp_color = color_of level, hp_intensity = min 1 risk\<rparr>)"

text \<open>
  The two loops over the grid; the cell in row \<open>i\<close> and column \<open>j\<close> is the
  \<open>(i * n + j)\<close>-th to draw, and draws twice.
\<close>

definition grid_points :: "rng \<Rightarrow> real \<Rightarrow> real \<Rightarrow> real list \<Rightarrow> real list \<Rightarrow> heat_point list" where
  "grid_points g center_lat center_lng lat_points lng_points =
     concat (map (\<lambda>(i, la). map (\<lambda>(j, lo).
               grid_point g center_lat center_lng (i * length lng_points + j) la lo)
             (enumerate 0 lng_points)) (enumerate 0 lat_points))"

definition list_max :: "real list \<Rightarrow> real" where
  "list_max xs = foldl max (hd xs) (tl xs)"

definition list_min :: "real list \<Rightarrow> real" where
  "list_min xs = foldl min (hd xs) (tl xs)"

text \<open>
  \<^verbatim>\<open>generate_risk_heatmap\<close>. \<^verbatim>\<open>np.linspace\<close> raises on a negative number of samples
  and \<^verbatim>\<open>np.max\<close> raises on an empty list; the handler then returns the empty
  dictionary, which is \<open>None\<close> here. The time stamp of the result is left out.
\<close>

definition generate_risk_heatmap ::
  "rng \<Rightarrow> real \<Rightarrow> real \<Rightarrow> real \<Rightarrow> int \<Rightarrow> heatmap option" where
  "generate_risk_heatmap g center_lat center_lng radius res =
     (let lat_offset = radius / 111;
          lng_offset = radius / (111 * cos (radians center_lat))
      in if res < 0 then None
         else
           let lat_points = linspace (center_lat - lat_offset) (center_lat + lat_offset) (nat res);
               lng_points = linspace (center_lng - lng_offset) (center_lng + lng_offset) (nat res);
               data = grid_points g center_lat center_lng lat_points lng_points;
               risk_scores = map hp_risk_score data
           in if risk_scores = [] then None
              else Some
                \<lparr>heatmap_data = data,
                 hm_bounds = \<lparr>north = center_lat + lat_offset, south = center_lat - lat_offset,
                              east = center_lng + lng_offset, west = center_lng - lng_offset\<rparr>,
                 hm_summary =
                   \<lparr>total_points = length data,
                    avg_risk = np_mean risk_scores,
                    max_risk = list_max risk_scores,
                    min_risk = list_min risk_scores,
                    high_risk_points = length (filter (\<lambda>s. s > 0.6) risk_scores),
                    critical_risk_points = length (filter (\<lambda>s. s > 0.8) risk_scores)\<rparr>,
                 hm_center = \<lparr>lat = center_lat, lng = center_lng\<rparr>,
                 hm_radius_km = radius,
                 hm_resolution = res\<rparr>)"

text \<open>
  The bounds box of a scan: the centre's latitude plus and minus \<open>radius / 111\<close>
  degrees, its longitude plus and minus \<open>radius / (111 cos latitude)\<close> degrees.
\<close>

definition bounds_box :: "location \<Rightarrow> real \<Rightarrow> bounds" where
  "bounds_box center radius =
     (let lat_offset = radius / 111;
          lng_offset = radius / (111 * cos (radians (lat center)))
      in \<lparr>north = lat center + lat_offset, south = lat center - lat_offset,
          east = lng center + lng_offset, west = lng center - lng_offset\<rparr>)"

definition in_bounds :: "bounds \<Rightarrow> location \<Rightarrow> bool" where
  "in_bounds b loc = (south b \<le> lat loc \<and> lat loc \<le> north b
                   \<and> west b \<le> lng loc \<and> lng loc \<le> east b)"

section \<open>The prediction request\<close>




section \<open>Sample inputs\<close>


definition empty_engine :: engine where
  "empty_engine = \<lparr>models = Map.empty, scalers = Map.empty\<rparr>"

definition ranchi :: location where
  "ranchi = \<lparr>lat = 23.3441, lng = 85.3096\<rparr>"

definition monday_noon :: clock where
  "monday_noon = \<lparr>now_weekday = 0, now_month = 1, now_hour = 12\<rparr>"

definition north_point :: location where
  "north_point = \<lparr>lat = 40, lng = 80\<rparr>"





text \<open>An engine whose classifier raises on every call.\<close>

definition failing_engine :: engine where
  "failing_engine =
     \<lparr>models = [''issue_classifier'' \<mapsto> Classifier (\<lambda>x. None)], scalers = Map.empty\<rparr>"

text \<open>
  The inputs of \<^verbatim>\<open>test_models\<close> (train\_models.py): the test weather and the test
  historical context.
\<close>

definition test_weather :: pydict where
  "test_weather = [(''precipitation'', Num 25), (''temperature'', Num 30), (''humidity'', Num 70)]"

definition test_context :: pydict where
  "test_context = [(''total_issues'', Num 15), (''avg_resolution_time'', Num 4.5),
                   (''recent_trend'', Str ''increasing'')]"

section \<open>Training feature pipeline\<close>

text \<open>
  The training pipeline works on a pandas table. Its columns are a list of names:
  \<^verbatim>\<open>df[c] = ...\<close> keeps the place of an existing column and puts a new one last.
\<close>

definition assign_col :: "string list \<Rightarrow> string \<Rightarrow> string list" where
  "assign_col cols c = (if c \<in> set cols then cols else cols @ [c])"

text \<open>
  \<^verbatim>\<open>pd.get_dummies(df, columns=[c], prefix=p)\<close> drops the column and puts one indicator
  column per distinct value of the column last, the values in sorted order. \<open>vals\<close>
  are the values of the column, row by row.
\<close>

definition dummy_columns :: "string \<Rightarrow> string list \<Rightarrow> string list" where
  "dummy_columns p vals = map (\<lambda>v. p @ ''_'' @ v) (sort (remdups vals))"

definition get_dummies :: "string list \<Rightarrow> string \<Rightarrow> string \<Rightarrow> string list \<Rightarrow> string list" where
  "get_dummies cols c p vals = filter (\<lambda>x. x \<noteq> c) cols @ dummy_columns p vals"

text \<open>
  The columns of \<^verbatim>\<open>DataProcessor._engineer_features\<close>. When a pandas operation raises
  (\<open>raised\<close>) the handler returns the table it was given.
\<close>

definition engineer_features_columns :: "bool \<Rightarrow> string list \<Rightarrow> string list \<Rightarrow> string list" where
  "engineer_features_columns raised cols category_values =
     (if raised then cols
      else
        let c1 = (if ''date'' \<in> set cols
                  then foldl assign_col cols
                         [''date'', ''year'', ''month'', ''day_of_year'', ''day_of_week'',
                          ''is_weekend'', ''season'']
                  else cols);
            c2 = (if ''latitude'' \<in> set c1 \<and> ''longitude'' \<in> set c1
                  then foldl assign_col c1 [''location_key'', ''distance_from_center'']
                  else c1);
            c3 = (if ''precipitation'' \<in> set c2
                  then foldl assign_col c2 [''heavy_rain'', ''rain_3day_avg'']
                  else c2);
            c4 = (if ''temperature'' \<in> set c3 then assign_col c3 ''extreme_temp'' else c3);
            c5 = (if ''category'' \<in> set c4
                  then get_dummies c4 ''category'' ''cat'' category_values
                  else c4);
            c6 = (if ''created_at'' \<in> set c5
                  then foldl assign_col c5 [''created_at'', ''hour'', ''time_of_day'']
                  else c5)
        in assign_col c6 ''risk_score'')"

text \<open>The feature columns of \<^verbatim>\<open>_prepare_classification_data\<close> and \<^verbatim>\<open>_prepare_regression_data\<close>.\<close>

definition classification_feature_cols :: "string list \<Rightarrow> string list" where
  "classification_feature_cols cols =
     filter (\<lambda>c. c \<notin> set [''category'', ''date'', ''created_at'', ''location_key'', ''risk_score''])
       cols"

definition regression_feature_cols :: "string list \<Rightarrow> string list" where
  "regression_feature_cols cols =
     filter (\<lambda>c. c \<notin> set [''risk_score'', ''date'', ''created_at'', ''location_key'']) cols"

text \<open>The columns of the table of \<^verbatim>\<open>_generate_sample_data\<close>, and its categories.\<close>

definition sample_columns :: "string list" where
  "sample_columns =
     [''date'', ''created_at'', ''latitude'', ''longitude'', ''category'', ''priority'',
      ''precipitation'', ''temperature'', ''humidity'', ''population_density'',
      ''infrastructure_age'', ''resolution_time'']"

definition categories :: "string list" where
  "categories =
     [''Road & Pothole Issues'', ''Streetlight Problems'', ''Waste Management'',
      ''Water Supply'', ''Sewage & Drainage'', ''Public Safety'', ''Parks & Recreation'',
      ''Traffic Management'', ''Other'']"

text \<open>
  The derivations of \<^verbatim>\<open>_engineer_features\<close> on one row: the date block, and the
  weather and location formulas.
\<close>

definition dp_date_features :: "int \<Rightarrow> int \<Rightarrow> int \<Rightarrow> int \<Rightarrow> pydict" where
  "dp_date_features year month day_of_year day_of_week =
     [(''year'', Num (of_int year)),
      (''month'', Num (of_int month)),
      (''day_of_year'', Num (of_int day_of_year)),
      (''day_of_week'', Num (of_int day_of_week)),
      (''is_weekend'', Num (if day_of_week \<in> set [5, 6] then 1 else 0)),
      (''season'', Str (dp_get_season month))]"

definition dp_distance_from_center :: "real \<Rightarrow> real \<Rightarrow> real" where
  "dp_distance_from_center latitude longitude =
     sqrt ((latitude - 23.3441)\<^sup>2 + (longitude - 85.3096)\<^sup>2)"

definition dp_heavy_rain :: "real \<Rightarrow> real" where
  "dp_heavy_rain precipitation = (if precipitation > 20 then 1 else 0)"

definition dp_extreme_temp :: "real \<Rightarrow> real" where
  "dp_extreme_temp temperature = (if temperature > 35 \<or> temperature < 5 then 1 else 0)"

section \<open>Training orchestrator\<close>

text \<open>
  A row of the training table, as far as the sequence forecaster reads it: its
  location key, its date (a day number), its risk score and its numeric columns. A
  table is its column names and its rows. The classifier's preparation label-encodes
  string feature columns in place; the key, the date and the risk score are not among
  them, and the numeric columns are taken as the forecaster finds them.
\<close>

record row =
  row_location_key :: string
  row_date :: int
  row_risk_score :: real
  row_numeric :: "real list"

record table =
  tbl_columns :: "string list"
  tbl_rows :: "row list"

definition sequence_length :: nat where
  "sequence_length = 7"

text \<open>
  The windows of one location group: \<^verbatim>\<open>range(len(group) - sequence_length)\<close>, each
  window with the risk score of the row after it.
\<close>

definition windows :: "row list \<Rightarrow> (real list list \<times> real) list" where
  "windows grp =
     map (\<lambda>i. (map row_numeric (take sequence_length (drop i grp)),
                row_risk_score (grp ! (i + sequence_length))))
       [0..<length grp - sequence_length]"

text \<open>
  \<^verbatim>\<open>_prepare_time_series_data\<close>: the sequences with their targets. The groups come in
  the order of their keys, each sorted by date; a group shorter than
  \<open>sequence_length + 1\<close> is skipped. Reading the risk score of a table with no such
  column raises, and the handler returns the empty arrays.
\<close>

definition prepare_time_series_data :: "table \<Rightarrow> (real list list \<times> real) list" where
  "prepare_time_series_data data =
     (if ''location_key'' \<notin> set (tbl_columns data) \<or> ''date'' \<notin> set (tbl_columns data)
      then []
      else
        let sequences =
              concat (map (\<lambda>name.
                  let grp = sort_key row_date
                                (filter (\<lambda>r. row_location_key r = name) (tbl_rows data))
                  in if length grp < sequence_length + 1 then [] else windows grp)
                (sort (remdups (map row_location_key (tbl_rows data)))))
        in if sequences \<noteq> [] \<and> ''risk_score'' \<notin> set (tbl_columns data) then []
           else sequences)"

text \<open>
  The fitting of scikit-learn and Keras, from the split to the evaluation, is a
  function of the prepared data: \<open>None\<close> when it raises.
\<close>

record learners =
  fit_classifier :: "table \<Rightarrow> (model \<times> scaler) option"
  fit_regressor :: "table \<Rightarrow> model option"
  fit_lstm :: "(real list list \<times> real) list \<Rightarrow> model option"
  fit_isolation_forest :: "table \<Rightarrow> model option"

text \<open>
  The four training functions of \<^verbatim>\<open>PredictiveModels\<close>: each returns the model, or
  \<^verbatim>\<open>None\<close> from its handler, and the engine with the model stored. A table without the
  label column raises \<^verbatim>\<open>KeyError\<close> in the preparation.
\<close>

definition train_issue_classifier :: "learners \<Rightarrow> engine \<Rightarrow> table \<Rightarrow> model option \<times> engine" where
  "train_issue_classifier L eng data =
     (if ''category'' \<notin> set (tbl_columns data) then (None, eng)
      else case fit_classifier L data of
             None \<Rightarrow> (None, eng)
           | Some (m, sc) \<Rightarrow>
               (Some m, eng\<lparr>models := (models eng)(''issue_classifier'' \<mapsto> m),
                           scalers := (scalers eng)(''issue_classifier'' \<mapsto> sc)\<rparr>))"

definition train_risk_regressor :: "learners \<Rightarrow> engine \<Rightarrow> table \<Rightarrow> model option \<times> engine" where
  "train_risk_regressor L eng data =
     (if ''risk_score'' \<notin> set (tbl_columns data) then (None, eng)
      else case fit_regressor L data of
             None \<Rightarrow> (None, eng)
           | Some m \<Rightarrow> (Some m, eng\<lparr>models := (models eng)(''risk_regressor'' \<mapsto> m)\<rparr>))"

definition train_time_series_model :: "learners \<Rightarrow> engine \<Rightarrow> table \<Rightarrow> model option \<times> engine" where
  "train_time_series_model L eng data =
     (let sequences = prepare_time_series_data data
      in if length sequences = 0 then (None, eng)
         else case fit_lstm L sequences of
                None \<Rightarrow> (None, eng)
              | Some m \<Rightarrow> (Some m, eng\<lparr>models := (models eng)(''time_series'' \<mapsto> m)\<rparr>))"

definition train_anomaly_detector :: "learners \<Rightarrow> engine \<Rightarrow> table \<Rightarrow> model option \<times> engine" where
  "train_anomaly_detector L eng data =
     (case fit_isolation_forest L data of
        None \<Rightarrow> (None, eng)
      | Some m \<Rightarrow> (Some m, eng\<lparr>models := (models eng)(''anomaly_detector'' \<mapsto> m)\<rparr>))"

text \<open>
  The state of main.py: the engine \<^verbatim>\<open>ml_models\<close> and the two global dictionaries
  \<^verbatim>\<open>trained_models\<close> and \<^verbatim>\<open>model_last_updated\<close>. A value of \<^verbatim>\<open>trained_models\<close> is what
  the training function returned, \<^verbatim>\<open>None\<close> included.
\<close>

record app =
  ml_models :: engine
  trained_models :: "string \<rightharpoonup> model option"
  model_last_updated :: "string \<rightharpoonup> nat"

text \<open>One turn of the loop of \<^verbatim>\<open>train_models_task\<close>.\<close>

definition train_step ::
  "table \<Rightarrow> nat \<Rightarrow> app \<Rightarrow> string \<times> (engine \<Rightarrow> table \<Rightarrow> model option \<times> engine) \<Rightarrow> app" where
  "train_step data now a step =
     (let model_name = fst step;
          result = snd step (ml_models a) data
      in a\<lparr>ml_models := snd result,
           trained_models := (trained_models a)(model_name \<mapsto> fst result),
           model_last_updated := (model_last_updated a)(model_name \<mapsto> now)\<rparr>)"

text \<open>
  \<^verbatim>\<open>train_models_task\<close>, on the loaded training table. No training function raises, so
  the handler of the task is never entered.
\<close>

definition train_models_task :: "learners \<Rightarrow> table \<Rightarrow> nat \<Rightarrow> app \<Rightarrow> app" where
  "train_models_task L data now a =
     foldl (train_step data now) a
       [(''issue_classifier'', train_issue_classifier L),
        (''risk_regressor'', train_risk_regressor L),
        (''time_series'', train_time_series_model L),
        (''anomaly_detector'', train_anomaly_detector L)]"

text \<open>No location group of the table reaches the window length 8.\<close>

definition insufficient_data :: "table \<Rightarrow> bool" where
  "insufficient_data data =
     (\<forall>name \<in> set (map row_location_key (tbl_rows data)).
        length (filter (\<lambda>r. row_location_key r = name) (tbl_rows data)) < sequence_length + 1)"

text \<open>
  A table with one location and three days, learners whose fits succeed, and the
  state of a fresh process.
\<close>

definition short_table :: table where
  "short_table =
     \<lparr>tbl_columns = [''location_key'', ''date'', ''category'', ''risk_score''],
      tbl_rows = [\<lparr>row_location_key = ''23.34_85.31'', row_date = 1, row_risk_score = 0.2,
                    row_numeric = [0.2]\<rparr>,
                  \<lparr>row_location_key = ''23.34_85.31'', row_date = 2, row_risk_score = 0.4,
                    row_numeric = [0.4]\<rparr>,
                  \<lparr>row_location_key = ''23.34_85.31'', row_date = 3, row_risk_score = 0.1,
                    row_numeric = [0.1]\<rparr>]\<rparr>"

definition demo_learners :: learners where
  "demo_learners =
     \<lparr>fit_classifier = (\<lambda>t. Some (Classifier (\<lambda>x. Some [(''Water Supply'', 0.5)]), Some)),
      fit_regressor = (\<lambda>t. Some (Regressor (\<lambda>x. Some 0.5))),
      fit_lstm = (\<lambda>s. Some SequenceForecaster),
      fit_isolation_forest = (\<lambda>t. Some OutlierDetector)\<rparr>"

definition fresh_app :: app where
  "fresh_app = \<lparr>ml_models = empty_engine, trained_models = Map.empty,
                 model_last_updated = Map.empty\<rparr>"

section \<open>Theorems\<close>

text \<open>
  C4. For every risk score the level follows the fixed thresholds: below 0.4 low, from
  0.4 and below 0.6 medium, from 0.6 and below 0.8 high, from 0.8 critical. In
  particular 0.6 is high, 0.599 medium, 0.8 critical and 0.79999 high, on the risk-area
  path and on the heatmap path alike.
\<close>

theorem risk_level_thresholds:
  "ml_get_risk_level r =
     (if r < 0.4 then ''low'' else if r < 0.6 then ''medium''
      else if r < 0.8 then ''high'' else ''critical'')
   \<and> viz_get_risk_level r = ml_get_risk_level r
   \<and> ml_get_risk_level 0.6 = ''high'' \<and> viz_get_risk_level 0.6 = ''high''
   \<and> ml_get_risk_level 0.599 = ''medium'' \<and> viz_get_risk_level 0.599 = ''medium''
   \<and> ml_get_risk_level 0.8 = ''critical'' \<and> viz_get_risk_level 0.8 = ''critical''
   \<and> ml_get_risk_level 0.79999 = ''high'' \<and> viz_get_risk_level 0.79999 = ''high''"
  by (simp add: ml_get_risk_level_def viz_get_risk_level_def)















lemma predict_issues_empty_registry:
  "models eng = Map.empty \<Longrightarrow>
   predict_issues eng loc w h tf now = generate_fallback_predictions loc w"
  by (simp add: predict_issues_def split: sum.splits)

text \<open>
  C3. With an empty model registry the fusion returns the fallback predictions: with
  no weather context exactly the \<^verbatim>\<open>Road & Pothole Issues\<close> item of probability 0.4,
  and with a weather context whose precipitation is a number above 20 the
  \<^verbatim>\<open>Water Supply\<close> item of probability 0.7 before it.
\<close>

theorem fallback_predictions:
  assumes "models eng = Map.empty"
      and "map_of w ''precipitation'' = Some (Num p)" and "p > 20"
  shows "predict_issues eng loc None h tf now = Inr [road_item]
       \<and> category road_item = ''Road & Pothole Issues'' \<and> probability road_item = 0.4
       \<and> predict_issues eng loc (Some w) h tf now = Inr [water_supply_item, road_item]
       \<and> category water_supply_item = ''Water Supply'' \<and> probability water_supply_item = 0.7"
proof -
  have "w \<noteq> []" using assms(2) by auto
  then show ?thesis
    using assms
    by (simp add: predict_issues_empty_registry generate_fallback_predictions_def
        dict_get_def road_item_def water_supply_item_def)
qed

lemma risk_area_loop_kept:
  "a \<in> set (risk_area_loop g n locs) \<Longrightarrow>
   ra_risk_score a > 0.6 \<and> ra_risk_level a = ml_get_risk_level (ra_risk_score a)"
  by (induction locs arbitrary: n) (auto simp: Let_def split: if_splits)

text \<open>
  C10. Every risk area returned by the scan has a risk score above 0.6, and its level
  is \<^verbatim>\<open>high\<close> or \<^verbatim>\<open>critical\<close>, never \<^verbatim>\<open>low\<close> or \<^verbatim>\<open>medium\<close>.
\<close>

theorem risk_areas_high_or_critical:
  "\<forall>a\<in>set (identify_risk_areas g center radius).
      ra_risk_score a > 0.6
    \<and> (ra_risk_level a = ''high'' \<or> ra_risk_level a = ''critical'')
    \<and> ra_risk_level a \<noteq> ''low'' \<and> ra_risk_level a \<noteq> ''medium''"
proof
  fix a assume "a \<in> set (identify_risk_areas g center radius)"
  then have k: "ra_risk_score a > 0.6 \<and> ra_risk_level a = ml_get_risk_level (ra_risk_score a)"
    unfolding identify_risk_areas_def by (rule risk_area_loop_kept)
  then show "ra_risk_score a > 0.6
    \<and> (ra_risk_level a = ''high'' \<or> ra_risk_level a = ''critical'')
    \<and> ra_risk_level a \<noteq> ''low'' \<and> ra_risk_level a \<noteq> ''medium''"
    by (simp add: ml_get_risk_level_def)
qed
















theorem fallback_predictions_witness:
  "predict_issues empty_engine ranchi None None ''7_days'' monday_noon = Inr [road_item]
   \<and> predict_issues empty_engine ranchi (Some [(''precipitation'', Num 25)]) None ''7_days''
        monday_noon = Inr [water_supply_item, road_item]"
  using fallback_predictions [of empty_engine "[(''precipitation'', Num 25)]" 25 ranchi None
          "''7_days''" monday_noon]
  by (simp add: empty_engine_def)

lemma far_north_risk:
  assumes "lat loc - 23.3441 \<ge> 2" "0 \<le> u"
  shows "calculate_location_risk loc u = 1"
proof -
  have "lat loc - 23.3441 \<le> distance_from_center (lat loc) (lng loc)"
    unfolding distance_from_center_def by (rule real_sqrt_sum_squares_ge1)
  then have "2 \<le> distance_from_center (lat loc) (lng loc)" using assms(1) by linarith
  then show ?thesis using assms(2)
    by (simp add: calculate_location_risk_def Let_def uniform_def min_def)
qed

lemma north_scan_first:
  "\<exists>a rest. identify_risk_areas (\<lambda>n. 1/2) north_point 10 = a # rest
      \<and> ra_risk_level a = ''critical''"
  by (simp add: identify_risk_areas_def generate_location_grid_def north_point_def Let_def
      far_north_risk ml_get_risk_level_def)

theorem risk_areas_high_or_critical_witness:
  "identify_risk_areas (\<lambda>n. 1/2) north_point 10 \<noteq> []
   \<and> ra_risk_score (hd (identify_risk_areas (\<lambda>n. 1/2) north_point 10)) > 0.6
   \<and> ra_risk_level (hd (identify_risk_areas (\<lambda>n. 1/2) north_point 10)) = ''critical''"
proof -
  obtain a rest where e: "identify_risk_areas (\<lambda>n. 1/2) north_point 10 = a # rest"
    and l: "ra_risk_level a = ''critical''"
    using north_scan_first by auto
  have "a \<in> set (identify_risk_areas (\<lambda>n. 1/2) north_point 10)" using e by simp
  with risk_areas_high_or_critical [of "\<lambda>n. 1/2" north_point 10]
  have "ra_risk_score a > 0.6" by blast
  then show ?thesis using e l by simp
qed



lemma length_linspace: "length (linspace a b n) = n"
  by (simp add: linspace_def)

lemma length_grid_points:
  "length (grid_points g cla clo las los) = length las * length los"
  by (simp add: grid_points_def length_concat comp_def case_prod_beta sum_list_triv)

lemma heatmap_points:
  assumes "1 \<le> res"
  shows "\<exists>hm. generate_risk_heatmap g cla clo radius res = Some hm
           \<and> length (heatmap_data hm) = nat (res * res)"
proof -
  let ?d = "grid_points g cla clo
       (linspace (cla - radius / 111) (cla + radius / 111) (nat res))
       (linspace (clo - radius / (111 * cos (radians cla))) (clo + radius / (111 * cos (radians cla))) (nat res))"
  have l: "length ?d = nat res * nat res" by (simp add: length_grid_points length_linspace)
  have "0 < nat res * nat res" using assms by simp
  then have ne: "?d \<noteq> []" using l by (metis length_0_conv less_numeral_extra(3))
  have n: "nat res * nat res = nat (res * res)" using assms by (simp add: nat_mult_distrib)
  show ?thesis using assms ne l n
    by (simp add: generate_risk_heatmap_def Let_def)
qed

lemma heatmap_none:
  "res \<le> 0 \<Longrightarrow> generate_risk_heatmap g cla clo radius res = None"
  by (simp add: generate_risk_heatmap_def Let_def grid_points_def linspace_def)

lemma cos_radians_nonneg:
  assumes "-90 \<le> d" "d \<le> 90" shows "0 \<le> cos (radians d)"
proof (rule cos_ge_zero)
  have "(-90) * pi \<le> d * pi" using assms(1) by (intro mult_right_mono) simp_all
  then show "- (pi / 2) \<le> radians d" by (simp add: radians_def)
  have "d * pi \<le> 90 * pi" using assms(2) by (intro mult_right_mono) simp_all
  then show "radians d \<le> pi / 2" by (simp add: radians_def)
qed

lemma in_concat_map:
  "x \<in> set (concat (map (\<lambda>i. map (F i) js) is)) \<Longrightarrow> \<exists>i\<in>set is. \<exists>j\<in>set js. x = F i j"
  by auto

lemma grid_in_bounds:
  assumes "0 \<le> radius" "0 \<le> cos (radians (lat center))"
      and "loc \<in> set (generate_location_grid center radius)"
  shows "in_bounds (bounds_box center radius) loc"
proof -
  define a where "a = radius / 111"
  define b where "b = radius / (111 * cos (radians (lat center)))"
  have a: "0 \<le> a" using assms(1) by (simp add: a_def)
  have b: "0 \<le> b" using assms(1,2) by (simp add: b_def)
  have "loc \<in> set (concat (map (\<lambda>i. map (\<lambda>j.
                   \<lparr>lat = lat center + of_int i * a / 2,
                    lng = lng center + of_int j * b / 2\<rparr>)
                 [-2, -1, 0, 1, 2 :: int]) [-2, -1, 0, 1, 2 :: int]))"
    using assms(3) by (simp only: generate_location_grid_def Let_def a_def b_def)
  then have "\<exists>i\<in>set [-2, -1, 0, 1, 2 :: int]. \<exists>j\<in>set [-2, -1, 0, 1, 2 :: int].
      loc = \<lparr>lat = lat center + of_int i * a / 2, lng = lng center + of_int j * b / 2\<rparr>"
    by (rule in_concat_map [where F = "\<lambda>i j. \<lparr>lat = lat center + of_int i * a / 2,
                                          lng = lng center + of_int j * b / 2\<rparr>"])
  then obtain i j :: int where i: "i \<in> set [-2, -1, 0, 1, 2]" and j: "j \<in> set [-2, -1, 0, 1, 2]"
    and loc: "loc = \<lparr>lat = lat center + of_int i * a / 2, lng = lng center + of_int j * b / 2\<rparr>"
    by blast
  have bb: "bounds_box center radius = \<lparr>north = lat center + a, south = lat center - a,
          east = lng center + b, west = lng center - b\<rparr>"
    by (simp add: bounds_box_def Let_def a_def b_def)
  show ?thesis unfolding bb loc in_bounds_def using i j a b by auto
qed

lemma length_grid: "length (generate_location_grid center radius) = 25"
  by (simp add: generate_location_grid_def Let_def)

text \<open>
  C8. For every centre location (a latitude between -90 and 90 degrees), the scan of
  radius 10 enumerates exactly 25 points and each lies within the bounds box; and for
  every heatmap resolution \<open>N\<close> (a grid of at least one cell a side) the heatmap
  has exactly \<open>N\<^sup>2\<close> grid points. A resolution below 1 is no grid: the
  generation then returns the empty result.
\<close>

theorem scanner_grid_and_heatmap:
  assumes "-90 \<le> lat center" and "lat center \<le> 90"
  shows "length (generate_location_grid center 10) = 25
       \<and> (\<forall>loc\<in>set (generate_location_grid center 10). in_bounds (bounds_box center 10) loc)
       \<and> (1 \<le> res \<longrightarrow> (\<exists>hm. generate_risk_heatmap g cla clo radius res = Some hm
                            \<and> length (heatmap_data hm) = nat (res * res)))
       \<and> (res \<le> 0 \<longrightarrow> generate_risk_heatmap g cla clo radius res = None)"
  using length_grid grid_in_bounds [OF _ cos_radians_nonneg [OF assms]] heatmap_points heatmap_none
  by auto

text \<open>
  The theorem at the reference centre: 25 points, the first within the box; 9 grid
  points at resolution 3; nothing at resolution 0.
\<close>

theorem scanner_grid_and_heatmap_witness:
  "length (generate_location_grid ranchi 10) = 25
   \<and> in_bounds (bounds_box ranchi 10) (hd (generate_location_grid ranchi 10))
   \<and> length (heatmap_data (the (generate_risk_heatmap (\<lambda>n. 1/2) 23.3441 85.3096 10 3))) = 9
   \<and> generate_risk_heatmap (\<lambda>n. 1/2) 23.3441 85.3096 10 0 = None"
proof -
  have r: "-90 \<le> lat ranchi" "lat ranchi \<le> 90" by (simp_all add: ranchi_def)
  have h: "hd (generate_location_grid ranchi 10) \<in> set (generate_location_grid ranchi 10)"
    by (simp add: generate_location_grid_def Let_def)
  from scanner_grid_and_heatmap [OF r, where res = 3 and g = "\<lambda>n. 1/2" and cla = "23.3441"
           and clo = "85.3096" and radius = 10]
       scanner_grid_and_heatmap [OF r, where res = 0 and g = "\<lambda>n. 1/2" and cla = "23.3441"
           and clo = "85.3096" and radius = 10] h
  show ?thesis by auto
qed

lemma weather_features_Inr:
  "weather_features w = Inr wfs \<Longrightarrow>
   \<exists>hr et. wfs = [(''precipitation'', dict_get w ''precipitation'' (Num 0)),
                 (''temperature'', dict_get w ''temperature'' (Num 25)),
                 (''humidity'', dict_get w ''humidity'' (Num 50)),
                 (''heavy_rain'', Num hr), (''extreme_temp'', Num et)]"
  by (auto simp: weather_features_def Let_def split: sum.splits if_splits)

lemma base_update_weather:
  "dict_update (base_features loc now)
     [(''precipitation'', a), (''temperature'', b), (''humidity'', c),
      (''heavy_rain'', d), (''extreme_temp'', e)]
   = base_features loc now @
     [(''precipitation'', a), (''temperature'', b), (''humidity'', c),
      (''heavy_rain'', d), (''extreme_temp'', e)]"
  by (simp add: base_features_def)

lemma base_update_history:
  "dict_update (base_features loc now) (historical_features h)
   = base_features loc now @ historical_features h"
  by (simp add: base_features_def historical_features_def)

lemma weather_update_history:
  "dict_update (base_features loc now @
     [(''precipitation'', a), (''temperature'', b), (''humidity'', c),
      (''heavy_rain'', d), (''extreme_temp'', e)]) (historical_features h)
   = base_features loc now @
     [(''precipitation'', a), (''temperature'', b), (''humidity'', c),
      (''heavy_rain'', d), (''extreme_temp'', e)] @ historical_features h"
  by (simp add: base_features_def historical_features_def)

lemma truthy_cases:
  "truthy c \<Longrightarrow> \<exists>d. c = Some d \<and> d \<noteq> []"
  by (cases c) auto

lemma extract_shape:
  assumes "extract_location_features loc wctx hctx now = Inr fs"
  shows "\<exists>W H. fs = base_features loc now @ W @ H
           \<and> (if truthy wctx
              then \<exists>w hr et. wctx = Some w \<and> weather_features w = Inr W \<and>
                     W = [(''precipitation'', dict_get w ''precipitation'' (Num 0)),
                          (''temperature'', dict_get w ''temperature'' (Num 25)),
                          (''humidity'', dict_get w ''humidity'' (Num 50)),
                          (''heavy_rain'', Num hr), (''extreme_temp'', Num et)]
              else W = [])
           \<and> (if truthy hctx then \<exists>h. hctx = Some h \<and> H = historical_features h else H = [])"
proof (cases "truthy wctx")
  case False
  then show ?thesis using assms
    by (cases wctx; cases hctx)
       (auto simp: extract_location_features_def Let_def base_update_history
          simp del: dict_update.simps split: if_splits)
next
  case True
  then obtain w where w: "wctx = Some w" "w \<noteq> []" using truthy_cases by blast
  from assms w obtain wfs where wfs: "weather_features w = Inr wfs"
    by (cases "weather_features w") (auto simp: extract_location_features_def Let_def)
  from weather_features_Inr [OF wfs] obtain hr et where
    e: "wfs = [(''precipitation'', dict_get w ''precipitation'' (Num 0)),
                 (''temperature'', dict_get w ''temperature'' (Num 25)),
                 (''humidity'', dict_get w ''humidity'' (Num 50)),
                 (''heavy_rain'', Num hr), (''extreme_temp'', Num et)]" by blast
  have fs: "fs = (case hctx of None \<Rightarrow> base_features loc now @ wfs
                 | Some h \<Rightarrow> if h = [] then base_features loc now @ wfs
                             else base_features loc now @ wfs @ historical_features h)"
    using assms w wfs
    by (cases hctx)
       (auto simp: extract_location_features_def Let_def e base_update_weather
          weather_update_history simp del: dict_update.simps split: if_splits)
  show ?thesis
  proof (cases "truthy hctx")
    case False
    then have "fs = base_features loc now @ wfs @ []" using fs by (cases hctx) auto
    then show ?thesis using True False w wfs e by (intro exI conjI) auto
  next
    case t: True
    then obtain h where h: "hctx = Some h" "h \<noteq> []" using truthy_cases by blast
    then have "fs = base_features loc now @ wfs @ historical_features h" using fs by simp
    then show ?thesis using True t w wfs e h by (intro exI conjI) auto
  qed
qed

lemma map_of_base_none:
  "k \<notin> set [''latitude'', ''longitude'', ''distance_from_center'', ''is_weekend'',
             ''month'', ''hour'', ''season''] \<Longrightarrow> map_of (base_features loc now) k = None"
  by (simp add: base_features_def)

lemma extract_keys:
  assumes "extract_location_features loc wctx hctx now = Inr fs"
  shows "map fst fs =
           [''latitude'', ''longitude'', ''distance_from_center'', ''is_weekend'',
            ''month'', ''hour'', ''season'']
           @ (if truthy wctx
              then [''precipitation'', ''temperature'', ''humidity'', ''heavy_rain'',
                    ''extreme_temp'']
              else [])
           @ (if truthy hctx
              then [''total_issues'', ''avg_resolution_time'', ''trend_increasing'']
              else [])"
proof -
  from extract_shape [OF assms] obtain W H where
    fs: "fs = base_features loc now @ W @ H"
    and W: "if truthy wctx
              then \<exists>w hr et. wctx = Some w \<and> weather_features w = Inr W \<and>
                     W = [(''precipitation'', dict_get w ''precipitation'' (Num 0)),
                          (''temperature'', dict_get w ''temperature'' (Num 25)),
                          (''humidity'', dict_get w ''humidity'' (Num 50)),
                          (''heavy_rain'', Num hr), (''extreme_temp'', Num et)]
              else W = []"
    and H: "if truthy hctx then \<exists>h. hctx = Some h \<and> H = historical_features h else H = []"
    by blast
  have b: "map fst (base_features loc now) =
      [''latitude'', ''longitude'', ''distance_from_center'', ''is_weekend'',
            ''month'', ''hour'', ''season'']" by (simp add: base_features_def)
  have w: "map fst W = (if truthy wctx
              then [''precipitation'', ''temperature'', ''humidity'', ''heavy_rain'',
                    ''extreme_temp''] else [])"
    using W by (auto split: if_splits)
  have h: "map fst H = (if truthy hctx
              then [''total_issues'', ''avg_resolution_time'', ''trend_increasing''] else [])"
    using H by (auto simp: historical_features_def split: if_splits)
  show ?thesis unfolding fs map_append b w h ..
qed

text \<open>
  C6, as amended. When the weather context is a non-empty dictionary, the feature
  vector holds its precipitation, temperature and humidity, a missing one filled with
  0, 25 and 50; when the historical context is a non-empty dictionary, it holds the
  average resolution time, a missing one filled with 3 (and the issue count, with 0).
  When a context is absent or empty, the vector holds none of its features.
\<close>

theorem adapter_defaults:
  assumes "extract_location_features loc wctx hctx now = Inr fs"
  shows "(\<forall>w. wctx = Some w \<and> w \<noteq> [] \<longrightarrow>
            map_of fs ''precipitation'' = Some (dict_get w ''precipitation'' (Num 0))
          \<and> map_of fs ''temperature'' = Some (dict_get w ''temperature'' (Num 25))
          \<and> map_of fs ''humidity'' = Some (dict_get w ''humidity'' (Num 50)))
       \<and> (\<forall>h. hctx = Some h \<and> h \<noteq> [] \<longrightarrow>
            map_of fs ''avg_resolution_time'' = Some (dict_get h ''avg_resolution_time'' (Num 3))
          \<and> map_of fs ''total_issues'' = Some (dict_get h ''total_issues'' (Num 0)))
       \<and> (\<not> truthy wctx \<longrightarrow> map_of fs ''precipitation'' = None
             \<and> map_of fs ''temperature'' = None \<and> map_of fs ''humidity'' = None)
       \<and> (\<not> truthy hctx \<longrightarrow> map_of fs ''avg_resolution_time'' = None)
       \<and> (\<forall>d k. map_of d k = None \<longrightarrow>
             dict_get d k (Num 0) = Num 0 \<and> dict_get d k (Num 25) = Num 25
           \<and> dict_get d k (Num 50) = Num 50 \<and> dict_get d k (Num 3) = Num 3)"
proof -
  from extract_shape [OF assms] obtain W H where
    fs: "fs = base_features loc now @ W @ H"
    and W: "if truthy wctx
              then \<exists>w hr et. wctx = Some w \<and> weather_features w = Inr W \<and>
                     W = [(''precipitation'', dict_get w ''precipitation'' (Num 0)),
                          (''temperature'', dict_get w ''temperature'' (Num 25)),
                          (''humidity'', dict_get w ''humidity'' (Num 50)),
                          (''heavy_rain'', Num hr), (''extreme_temp'', Num et)]
              else W = []"
    and H: "if truthy hctx then \<exists>h. hctx = Some h \<and> H = historical_features h else H = []"
    by blast
  have m: "\<And>k. k \<notin> set [''latitude'', ''longitude'', ''distance_from_center'', ''is_weekend'',
             ''month'', ''hour'', ''season''] \<Longrightarrow>
      map_of fs k = (case map_of W k of Some v \<Rightarrow> Some v | None \<Rightarrow> map_of H k)"
    unfolding fs by (simp add: map_of_base_none map_add_def split: option.splits)
  have Hw: "map_of H ''precipitation'' = None \<and> map_of H ''temperature'' = None
          \<and> map_of H ''humidity'' = None"
    using H by (auto simp: historical_features_def split: if_splits)
  have Wh: "map_of W ''avg_resolution_time'' = None \<and> map_of W ''total_issues'' = None"
    using W by (auto split: if_splits)
  show ?thesis
  proof (intro conjI allI impI)
    fix w assume "wctx = Some w \<and> w \<noteq> []"
    then have "\<exists>hr et. W = [(''precipitation'', dict_get w ''precipitation'' (Num 0)),
                          (''temperature'', dict_get w ''temperature'' (Num 25)),
                          (''humidity'', dict_get w ''humidity'' (Num 50)),
                          (''heavy_rain'', Num hr), (''extreme_temp'', Num et)]"
      using W by auto
    then obtain hr et where e: "W = [(''precipitation'', dict_get w ''precipitation'' (Num 0)),
                          (''temperature'', dict_get w ''temperature'' (Num 25)),
                          (''humidity'', dict_get w ''humidity'' (Num 50)),
                          (''heavy_rain'', Num hr), (''extreme_temp'', Num et)]" by blast
    show "map_of fs ''precipitation'' = Some (dict_get w ''precipitation'' (Num 0))"
      by (simp add: m e)
    show "map_of fs ''temperature'' = Some (dict_get w ''temperature'' (Num 25))"
      by (simp add: m e)
    show "map_of fs ''humidity'' = Some (dict_get w ''humidity'' (Num 50))"
      by (simp add: m e)
  next
    fix h assume "hctx = Some h \<and> h \<noteq> []"
    then have e: "H = historical_features h" using H by auto
    show "map_of fs ''avg_resolution_time'' = Some (dict_get h ''avg_resolution_time'' (Num 3))"
      using Wh by (simp add: m e historical_features_def)
    show "map_of fs ''total_issues'' = Some (dict_get h ''total_issues'' (Num 0))"
      using Wh by (simp add: m e historical_features_def)
  next
    assume "\<not> truthy wctx"
    then have e: "W = []" using W by simp
    show "map_of fs ''precipitation'' = None" using Hw by (simp add: m e)
    show "map_of fs ''temperature'' = None" using Hw by (simp add: m e)
    show "map_of fs ''humidity'' = None" using Hw by (simp add: m e)
  next
    assume "\<not> truthy hctx"
    then have e: "H = []" using H by simp
    show "map_of fs ''avg_resolution_time'' = None" using Wh by (simp add: m e)
  qed (simp_all add: dict_get_def)
qed

text \<open>
  The adapter returns whenever the precipitation and the temperature of the weather
  context are numbers or missing.
\<close>

lemma extract_returns:
  assumes "\<And>w. wctx = Some w \<Longrightarrow>
             (\<exists>p. dict_get w ''precipitation'' (Num 0) = Num p)
           \<and> (\<exists>t. dict_get w ''temperature'' (Num 25) = Num t)"
  shows "\<exists>fs. extract_location_features loc wctx hctx now = Inr fs"
proof (cases wctx)
  case None
  then show ?thesis by (cases hctx) (simp_all add: extract_location_features_def Let_def)
next
  case (Some w)
  from assms [OF Some] obtain p t where "dict_get w ''precipitation'' (Num 0) = Num p"
    "dict_get w ''temperature'' (Num 25) = Num t" by blast
  then have "\<exists>W. weather_features w = Inr W" by (simp add: weather_features_def Let_def)
  then show ?thesis using Some
    by (cases hctx) (auto simp add: extract_location_features_def Let_def simp del: dict_update.simps)
qed

text \<open>
  C6 as stated fails: with both contexts absent the adapter returns the base features
  only, with no temperature, humidity, precipitation or resolution time in them.
\<close>

theorem adapter_defaults_counterexample:
  "extract_location_features ranchi None None monday_noon = Inr (base_features ranchi monday_noon)
   \<and> map_of (base_features ranchi monday_noon) ''temperature'' = None
   \<and> map_of (base_features ranchi monday_noon) ''humidity'' = None
   \<and> map_of (base_features ranchi monday_noon) ''precipitation'' = None
   \<and> map_of (base_features ranchi monday_noon) ''avg_resolution_time'' = None"
  by (simp add: extract_location_features_def Let_def base_features_def)

lemma humid_only:
  "extract_location_features ranchi (Some [(''humidity'', Num 70)])
       (Some [(''total_issues'', Num 15)]) monday_noon
   = Inr (base_features ranchi monday_noon @
       [(''precipitation'', Num 0), (''temperature'', Num 25), (''humidity'', Num 70),
        (''heavy_rain'', Num 0), (''extreme_temp'', Num 0)] @
       [(''total_issues'', Num 15), (''avg_resolution_time'', Num 3), (''trend_increasing'', Num 0)])"
  by (simp add: extract_location_features_def Let_def base_features_def weather_features_def
      historical_features_def dict_get_def)

text \<open>
  The theorem at a weather context with a humidity only and a historical context with
  an issue count only.
\<close>

theorem adapter_defaults_witness:
  "map_of (projr (extract_location_features ranchi (Some [(''humidity'', Num 70)])
       (Some [(''total_issues'', Num 15)]) monday_noon)) ''temperature'' = Some (Num 25)
   \<and> map_of (projr (extract_location_features ranchi (Some [(''humidity'', Num 70)])
       (Some [(''total_issues'', Num 15)]) monday_noon)) ''precipitation'' = Some (Num 0)
   \<and> map_of (projr (extract_location_features ranchi (Some [(''humidity'', Num 70)])
       (Some [(''total_issues'', Num 15)]) monday_noon)) ''humidity'' = Some (Num 70)
   \<and> map_of (projr (extract_location_features ranchi (Some [(''humidity'', Num 70)])
       (Some [(''total_issues'', Num 15)]) monday_noon)) ''avg_resolution_time'' = Some (Num 3)"
  using adapter_defaults [OF humid_only]
  by (simp add: humid_only dict_get_def)

lemma not_dummy:
  "''hour'' \<notin> set (dummy_columns ''cat'' vals)"
  "''time_of_day'' \<notin> set (dummy_columns ''cat'' vals)"
  "''risk_score'' \<notin> set (dummy_columns ''cat'' vals)"
  "''year'' \<notin> set (dummy_columns ''cat'' vals)"
  by (auto simp: dummy_columns_def)

lemma sample_engineered:
  "engineer_features_columns False sample_columns vals =
     [''date'', ''created_at'', ''latitude'', ''longitude'', ''priority'',
      ''precipitation'', ''temperature'', ''humidity'', ''population_density'',
      ''infrastructure_age'', ''resolution_time'', ''year'', ''month'', ''day_of_year'',
      ''day_of_week'', ''is_weekend'', ''season'', ''location_key'', ''distance_from_center'',
      ''heavy_rain'', ''rain_3day_avg'', ''extreme_temp'']
     @ dummy_columns ''cat'' vals @ [''hour'', ''time_of_day'', ''risk_score'']"
proof -
  have c1: "foldl assign_col sample_columns
                         [''date'', ''year'', ''month'', ''day_of_year'', ''day_of_week'',
                          ''is_weekend'', ''season'']
     = sample_columns @ [''year'', ''month'', ''day_of_year'', ''day_of_week'',
                          ''is_weekend'', ''season'']"
    by (simp add: assign_col_def sample_columns_def)
  have c2: "foldl assign_col (sample_columns @ [''year'', ''month'', ''day_of_year'', ''day_of_week'',
                          ''is_weekend'', ''season'']) [''location_key'', ''distance_from_center'']
     = sample_columns @ [''year'', ''month'', ''day_of_year'', ''day_of_week'',
                          ''is_weekend'', ''season'', ''location_key'', ''distance_from_center'']"
    by (simp add: assign_col_def sample_columns_def)
  have c3: "foldl assign_col (sample_columns @ [''year'', ''month'', ''day_of_year'', ''day_of_week'',
                          ''is_weekend'', ''season'', ''location_key'', ''distance_from_center''])
                 [''heavy_rain'', ''rain_3day_avg'']
     = sample_columns @ [''year'', ''month'', ''day_of_year'', ''day_of_week'',
                          ''is_weekend'', ''season'', ''location_key'', ''distance_from_center'',
                          ''heavy_rain'', ''rain_3day_avg'']"
    by (simp add: assign_col_def sample_columns_def)
  have c4: "assign_col (sample_columns @ [''year'', ''month'', ''day_of_year'', ''day_of_week'',
                          ''is_weekend'', ''season'', ''location_key'', ''distance_from_center'',
                          ''heavy_rain'', ''rain_3day_avg'']) ''extreme_temp''
     = sample_columns @ [''year'', ''month'', ''day_of_year'', ''day_of_week'',
                          ''is_weekend'', ''season'', ''location_key'', ''distance_from_center'',
                          ''heavy_rain'', ''rain_3day_avg'', ''extreme_temp'']"
    by (simp add: assign_col_def sample_columns_def)
  let ?c5 = "[''date'', ''created_at'', ''latitude'', ''longitude'', ''priority'',
      ''precipitation'', ''temperature'', ''humidity'', ''population_density'',
      ''infrastructure_age'', ''resolution_time'', ''year'', ''month'', ''day_of_year'',
      ''day_of_week'', ''is_weekend'', ''season'', ''location_key'', ''distance_from_center'',
      ''heavy_rain'', ''rain_3day_avg'', ''extreme_temp''] @ dummy_columns ''cat'' vals"
  have c5: "get_dummies (sample_columns @ [''year'', ''month'', ''day_of_year'', ''day_of_week'',
                          ''is_weekend'', ''season'', ''location_key'', ''distance_from_center'',
                          ''heavy_rain'', ''rain_3day_avg'', ''extreme_temp''])
               ''category'' ''cat'' vals = ?c5"
    by (simp add: get_dummies_def sample_columns_def)
  have c6: "foldl assign_col ?c5 [''created_at'', ''hour'', ''time_of_day'']
      = [''date'', ''created_at'', ''latitude'', ''longitude'', ''priority'',
      ''precipitation'', ''temperature'', ''humidity'', ''population_density'',
      ''infrastructure_age'', ''resolution_time'', ''year'', ''month'', ''day_of_year'',
      ''day_of_week'', ''is_weekend'', ''season'', ''location_key'', ''distance_from_center'',
      ''heavy_rain'', ''rain_3day_avg'', ''extreme_temp''] @ dummy_columns ''cat'' vals @ [''hour'', ''time_of_day'']"
    by (simp add: assign_col_def not_dummy)
  have c7: "assign_col ([''date'', ''created_at'', ''latitude'', ''longitude'', ''priority'',
      ''precipitation'', ''temperature'', ''humidity'', ''population_density'',
      ''infrastructure_age'', ''resolution_time'', ''year'', ''month'', ''day_of_year'',
      ''day_of_week'', ''is_weekend'', ''season'', ''location_key'', ''distance_from_center'',
      ''heavy_rain'', ''rain_3day_avg'', ''extreme_temp''] @ dummy_columns ''cat'' vals @ [''hour'', ''time_of_day'']) ''risk_score''
      = [''date'', ''created_at'', ''latitude'', ''longitude'', ''priority'',
      ''precipitation'', ''temperature'', ''humidity'', ''population_density'',
      ''infrastructure_age'', ''resolution_time'', ''year'', ''month'', ''day_of_year'',
      ''day_of_week'', ''is_weekend'', ''season'', ''location_key'', ''distance_from_center'',
      ''heavy_rain'', ''rain_3day_avg'', ''extreme_temp''] @ dummy_columns ''cat'' vals @ [''hour'', ''time_of_day'', ''risk_score'']"
    by (simp add: assign_col_def not_dummy)
  have m1: "''date'' \<in> set sample_columns" by (simp add: sample_columns_def)
  have m2: "''latitude'' \<in> set (sample_columns @ [''year'', ''month'', ''day_of_year'', ''day_of_week'',
                          ''is_weekend'', ''season''])
          \<and> ''longitude'' \<in> set (sample_columns @ [''year'', ''month'', ''day_of_year'', ''day_of_week'',
                          ''is_weekend'', ''season''])"
    by (simp add: sample_columns_def)
  have m3: "''precipitation'' \<in> set (sample_columns @ [''year'', ''month'', ''day_of_year'', ''day_of_week'',
                          ''is_weekend'', ''season'', ''location_key'', ''distance_from_center''])"
    by (simp add: sample_columns_def)
  have m4: "''temperature'' \<in> set (sample_columns @ [''year'', ''month'', ''day_of_year'', ''day_of_week'',
                          ''is_weekend'', ''season'', ''location_key'', ''distance_from_center'',
                          ''heavy_rain'', ''rain_3day_avg''])"
    by (simp add: sample_columns_def)
  have m5: "''category'' \<in> set (sample_columns @ [''year'', ''month'', ''day_of_year'', ''day_of_week'',
                          ''is_weekend'', ''season'', ''location_key'', ''distance_from_center'',
                          ''heavy_rain'', ''rain_3day_avg'', ''extreme_temp''])"
    by (simp add: sample_columns_def)
  have m6: "''created_at'' \<in> set ?c5" by simp
  show ?thesis
    unfolding engineer_features_columns_def Let_def
    by (simp only: if_False if_True m1 c1 m2 simp_thms c2 m3 c3 m4 c4 m5 c5 m6 c6 c7)
qed

lemma sorted_categories:
  "sort (remdups categories) =
     [''Other'', ''Parks & Recreation'', ''Public Safety'', ''Road & Pothole Issues'',
      ''Sewage & Drainage'', ''Streetlight Problems'', ''Traffic Management'',
      ''Waste Management'', ''Water Supply'']"
  unfolding categories_def by code_simp

lemma risk_score_engineered:
  "''risk_score'' \<in> set (engineer_features_columns False cols vals)"
  by (simp add: engineer_features_columns_def assign_col_def Let_def)

lemma predict_categories_values:
  "map snd fs = map snd fs' \<Longrightarrow> predict_categories eng fs = predict_categories eng fs'"
  unfolding predict_categories_def by (erule subst) (rule refl)

lemma predict_risk_scores_values:
  "map snd fs = map snd fs' \<Longrightarrow> predict_risk_scores eng fs = predict_risk_scores eng fs'"
  unfolding predict_risk_scores_def by (erule subst) (rule refl)

lemma failing_classifier:
  "models eng ''issue_classifier'' = Some (Classifier f) \<Longrightarrow>
   scalers eng ''issue_classifier'' = None \<Longrightarrow> f (map snd fs) = None \<Longrightarrow>
   predict_categories eng fs = []"
  by (simp add: predict_categories_def Let_def)

lemma failing_scaler:
  "scalers eng ''issue_classifier'' = Some sc \<Longrightarrow> sc (map snd fs) = None \<Longrightarrow>
   predict_categories eng fs = []"
  by (simp add: predict_categories_def Let_def split: option.splits model.splits)

lemma failing_regressor:
  "models eng ''risk_regressor'' = Some (Regressor f) \<Longrightarrow> f (map snd fs) = None \<Longrightarrow>
   predict_risk_scores eng fs = []"
  by (simp add: predict_risk_scores_def)

lemma weather_Inr_precipitation:
  "weather_features w = Inr W \<Longrightarrow> \<exists>b. py_gt (dict_get w ''precipitation'' (Num 0)) 20 = Inr b"
  by (auto simp: weather_features_def Let_def split: sum.splits)

lemma fallback_nonempty:
  "generate_fallback_predictions loc wctx = Inr ps \<Longrightarrow> ps \<noteq> []"
  by (auto simp: generate_fallback_predictions_def split: option.splits if_splits sum.splits)

lemma fallback_returns:
  assumes "extract_location_features loc wctx hctx now = Inr fs"
  shows "\<exists>ps. generate_fallback_predictions loc wctx = Inr ps"
proof (cases "truthy wctx")
  case False
  then show ?thesis by (cases wctx) (simp_all add: generate_fallback_predictions_def)
next
  case True
  then obtain w where w: "wctx = Some w" "w \<noteq> []" using truthy_cases by blast
  from assms w obtain W where "weather_features w = Inr W"
    by (cases "weather_features w") (auto simp: extract_location_features_def Let_def)
  from weather_Inr_precipitation [OF this] obtain b where
    "py_gt (dict_get w ''precipitation'' (Num 0)) 20 = Inr b" by blast
  then show ?thesis using w by (simp add: generate_fallback_predictions_def)
qed

lemma predict_issues_returns:
  assumes "extract_location_features loc wctx hctx now = Inr fs"
  shows "\<exists>ps. predict_issues eng loc wctx hctx tf now = Inr ps \<and> ps \<noteq> []"
proof -
  define xs where "xs =
     (if models eng ''issue_classifier'' \<noteq> None then predict_categories eng fs else [])
     @ (if models eng ''risk_regressor'' \<noteq> None then predict_risk_scores eng fs else [])
     @ (if models eng ''time_series'' \<noteq> None \<and> truthy hctx
        then predict_time_series loc tf else [])"
  have pi: "predict_issues eng loc wctx hctx tf now =
              (if xs = [] then generate_fallback_predictions loc wctx else Inr xs)"
    unfolding predict_issues_def xs_def Let_def assms by simp
  from fallback_returns [OF assms] obtain ps where
    f: "generate_fallback_predictions loc wctx = Inr ps" by blast
  show ?thesis
    using pi f fallback_nonempty [OF f] by (cases "xs = []") simp_all
qed

text \<open>
  C1, as amended. The key list of the adapter's feature vector is the seven base keys,
  followed by the five weather keys when a non-empty weather context is given and by
  the three history keys when a non-empty historical context is given. When the
  engineering of a training table raises, the table comes back with the columns it
  had; when it does not, the table has a \<^verbatim>\<open>risk_score\<close> column and its column list is
  never the adapter's key list; nor is the list of feature columns that training takes
  from the sample table, which has a \<^verbatim>\<open>year\<close> column. The fusion engine compares no
  keys: its category and risk predictions depend on the feature values in their order
  alone; a scaler, classifier or regressor call that fails gives no item of that model;
  and the fusion returns a non-empty list of predictions, never an error.
\<close>

theorem adapter_schema:
  assumes "extract_location_features loc wctx hctx now = Inr fs"
  shows "map fst fs =
           [''latitude'', ''longitude'', ''distance_from_center'', ''is_weekend'',
            ''month'', ''hour'', ''season'']
           @ (if truthy wctx
              then [''precipitation'', ''temperature'', ''humidity'', ''heavy_rain'',
                    ''extreme_temp'']
              else [])
           @ (if truthy hctx
              then [''total_issues'', ''avg_resolution_time'', ''trend_increasing'']
              else [])
       \<and> engineer_features_columns True cols vals = cols
       \<and> map fst fs \<noteq> engineer_features_columns False cols vals
       \<and> map fst fs \<noteq> classification_feature_cols
                          (engineer_features_columns False sample_columns vals)
       \<and> map fst fs \<noteq> regression_feature_cols
                          (engineer_features_columns False sample_columns vals)
       \<and> (\<forall>fs'. map snd fs' = map snd fs \<longrightarrow>
              predict_categories eng fs' = predict_categories eng fs
            \<and> predict_risk_scores eng fs' = predict_risk_scores eng fs)
       \<and> (\<forall>f. models eng ''issue_classifier'' = Some (Classifier f)
              \<and> scalers eng ''issue_classifier'' = None \<and> f (map snd fs) = None
              \<longrightarrow> predict_categories eng fs = [])
       \<and> (\<forall>sc. scalers eng ''issue_classifier'' = Some sc \<and> sc (map snd fs) = None
              \<longrightarrow> predict_categories eng fs = [])
       \<and> (\<forall>f. models eng ''risk_regressor'' = Some (Regressor f) \<and> f (map snd fs) = None
              \<longrightarrow> predict_risk_scores eng fs = [])
       \<and> (\<exists>ps. predict_issues eng loc wctx hctx tf now = Inr ps \<and> ps \<noteq> [])"
proof -
  note k = extract_keys [OF assms]
  have n1: "''risk_score'' \<notin> set (map fst fs)" unfolding k by simp
  have n2: "''year'' \<notin> set (map fst fs)" unfolding k by simp
  have y1: "''year'' \<in> set (classification_feature_cols
                          (engineer_features_columns False sample_columns vals))"
    by (simp add: sample_engineered classification_feature_cols_def)
  have y2: "''year'' \<in> set (regression_feature_cols
                          (engineer_features_columns False sample_columns vals))"
    by (simp add: sample_engineered regression_feature_cols_def)
  have d1: "map fst fs \<noteq> engineer_features_columns False cols vals"
    using n1 risk_score_engineered [of cols vals] by metis
  have d2: "map fst fs \<noteq> classification_feature_cols
                          (engineer_features_columns False sample_columns vals)"
    using n2 y1 by metis
  have d3: "map fst fs \<noteq> regression_feature_cols
                          (engineer_features_columns False sample_columns vals)"
    using n2 y2 by metis
  have t: "engineer_features_columns True cols vals = cols"
    by (simp add: engineer_features_columns_def)
  have v: "\<forall>fs'. map snd fs' = map snd fs \<longrightarrow>
              predict_categories eng fs' = predict_categories eng fs
            \<and> predict_risk_scores eng fs' = predict_risk_scores eng fs"
    using predict_categories_values predict_risk_scores_values by blast
  have f1: "\<forall>f. models eng ''issue_classifier'' = Some (Classifier f)
              \<and> scalers eng ''issue_classifier'' = None \<and> f (map snd fs) = None
              \<longrightarrow> predict_categories eng fs = []"
    using failing_classifier by blast
  have f2: "\<forall>sc. scalers eng ''issue_classifier'' = Some sc \<and> sc (map snd fs) = None
              \<longrightarrow> predict_categories eng fs = []"
    using failing_scaler by blast
  have f3: "\<forall>f. models eng ''risk_regressor'' = Some (Regressor f) \<and> f (map snd fs) = None
              \<longrightarrow> predict_risk_scores eng fs = []"
    using failing_regressor by blast
  show ?thesis
    using k t d1 d2 d3 v f1 f2 f3 predict_issues_returns [OF assms] by (intro conjI)
qed

text \<open>
  C1 as stated fails: on the test inputs of the training script the adapter gives 15
  keys, and the classifier's feature columns on the sample table, with all nine
  categories in its rows, are 30 other names in another order.
\<close>

theorem adapter_schema_counterexample:
  "extract_location_features ranchi (Some test_weather) (Some test_context) monday_noon
     = Inr [(''latitude'', Num 23.3441), (''longitude'', Num 85.3096),
            (''distance_from_center'', Num 0), (''is_weekend'', Num 0), (''month'', Num 1),
            (''hour'', Num 12), (''season'', Num 0), (''precipitation'', Num 25),
            (''temperature'', Num 30), (''humidity'', Num 70), (''heavy_rain'', Num 1),
            (''extreme_temp'', Num 0), (''total_issues'', Num 15),
            (''avg_resolution_time'', Num 4.5), (''trend_increasing'', Num 1)]
   \<and> classification_feature_cols (engineer_features_columns False sample_columns categories)
     = [''latitude'', ''longitude'', ''priority'', ''precipitation'', ''temperature'',
        ''humidity'', ''population_density'', ''infrastructure_age'', ''resolution_time'',
        ''year'', ''month'', ''day_of_year'', ''day_of_week'', ''is_weekend'', ''season'',
        ''distance_from_center'', ''heavy_rain'', ''rain_3day_avg'', ''extreme_temp'',
        ''cat_Other'', ''cat_Parks & Recreation'', ''cat_Public Safety'',
        ''cat_Road & Pothole Issues'', ''cat_Sewage & Drainage'', ''cat_Streetlight Problems'',
        ''cat_Traffic Management'', ''cat_Waste Management'', ''cat_Water Supply'',
        ''hour'', ''time_of_day'']
   \<and> map fst (projr (extract_location_features ranchi (Some test_weather) (Some test_context)
                        monday_noon))
     \<noteq> classification_feature_cols (engineer_features_columns False sample_columns categories)"
  by (simp add: extract_location_features_def Let_def base_features_def weather_features_def
      historical_features_def dict_get_def test_weather_def test_context_def ranchi_def
      monday_noon_def distance_from_center_def ml_get_season_def
      sample_engineered classification_feature_cols_def dummy_columns_def sorted_categories)

text \<open>
  The theorem at the test inputs of the training script, and at a classifier whose call
  fails: no category item, and the fallback predictions are returned.
\<close>

theorem adapter_schema_witness:
  "map fst (projr (extract_location_features ranchi (Some test_weather) (Some test_context)
                     monday_noon))
     = [''latitude'', ''longitude'', ''distance_from_center'', ''is_weekend'', ''month'',
        ''hour'', ''season'', ''precipitation'', ''temperature'', ''humidity'', ''heavy_rain'',
        ''extreme_temp'', ''total_issues'', ''avg_resolution_time'', ''trend_increasing'']
   \<and> predict_categories failing_engine
         (projr (extract_location_features ranchi (Some test_weather) (Some test_context)
                   monday_noon)) = []
   \<and> predict_issues failing_engine ranchi (Some test_weather) (Some test_context) ''7_days''
         monday_noon = Inr [water_supply_item, road_item]"
proof -
  obtain fs where e: "extract_location_features ranchi (Some test_weather) (Some test_context)
      monday_noon = Inr fs"
    using extract_returns [of "Some test_weather" ranchi "Some test_context" monday_noon]
    by (auto simp: test_weather_def dict_get_def)
  have c: "predict_categories failing_engine fs = []"
    by (simp add: predict_categories_def failing_engine_def Let_def)
  have m: "models failing_engine ''issue_classifier'' \<noteq> None"
    "models failing_engine ''risk_regressor'' = None"
    "models failing_engine ''time_series'' = None"
    by (simp_all add: failing_engine_def)
  have f: "generate_fallback_predictions ranchi (Some test_weather)
             = Inr [water_supply_item, road_item]"
    by (simp add: generate_fallback_predictions_def test_weather_def dict_get_def)
  have p: "predict_issues failing_engine ranchi (Some test_weather) (Some test_context)
             ''7_days'' monday_noon = Inr [water_supply_item, road_item]"
    unfolding predict_issues_def e by (simp add: c m f)
  from adapter_schema [OF e, of _ _ failing_engine] show ?thesis
    unfolding e using c p by (simp add: test_weather_def test_context_def)
qed

text \<open>
  C5, as amended. For every month the two season derivations choose the same season:
  the adapter gives its index, 0 to 3, and the training pipeline the name at that index
  of Winter, Spring, Summer, Fall. The weekend flag, the month, the distance from the
  centre, the heavy-rain flag and the extreme-temperature flag have equal values for
  equal inputs on both sides.
\<close>

theorem season_correspondence:
  "dp_get_season m = [''Winter'', ''Spring'', ''Summer'', ''Fall''] ! nat (ml_get_season m)
   \<and> 0 \<le> ml_get_season m \<and> ml_get_season m \<le> 3
   \<and> map_of (base_features loc now) ''season'' = Some (Num (of_int (ml_get_season (now_month now))))
   \<and> map_of (dp_date_features y m doy dow) ''season'' = Some (Str (dp_get_season m))
   \<and> map_of (base_features loc now) ''is_weekend''
       = map_of (dp_date_features y m doy (now_weekday now)) ''is_weekend''
   \<and> map_of (base_features loc now) ''month''
       = map_of (dp_date_features y (now_month now) doy dow) ''month''
   \<and> map_of (base_features loc now) ''distance_from_center''
       = Some (Num (dp_distance_from_center (lat loc) (lng loc)))
   \<and> weather_features [(''precipitation'', Num p), (''temperature'', Num t), (''humidity'', Num h)]
       = Inr [(''precipitation'', Num p), (''temperature'', Num t), (''humidity'', Num h),
              (''heavy_rain'', Num (dp_heavy_rain p)), (''extreme_temp'', Num (dp_extreme_temp t))]"
  by (simp add: dp_get_season_def ml_get_season_def base_features_def dp_date_features_def
      dp_distance_from_center_def distance_from_center_def weather_features_def dict_get_def
      dp_heavy_rain_def dp_extreme_temp_def)

text \<open>
  C5 as stated fails: for January the adapter's season feature is the number 0 and the
  training pipeline's is the string \<^verbatim>\<open>Winter\<close>.
\<close>

theorem season_counterexample:
  "map_of (base_features ranchi monday_noon) ''season'' = Some (Num 0)
   \<and> map_of (dp_date_features 2024 (now_month monday_noon) 1 (now_weekday monday_noon)) ''season''
       = Some (Str ''Winter'')
   \<and> map_of (base_features ranchi monday_noon) ''season''
       \<noteq> map_of (dp_date_features 2024 (now_month monday_noon) 1 (now_weekday monday_noon))
           ''season''"
  by (simp add: base_features_def dp_date_features_def monday_noon_def ml_get_season_def
      dp_get_season_def)

lemma prepare_insufficient:
  assumes "insufficient_data data"
  shows "prepare_time_series_data data = []"
proof -
  have s: "\<And>name. name \<in> set (sort (remdups (map row_location_key (tbl_rows data)))) \<Longrightarrow>
      length (sort_key row_date (filter (\<lambda>r. row_location_key r = name) (tbl_rows data)))
        < sequence_length + 1"
    using assms by (auto simp add: insufficient_data_def)
  have c: "concat (map (\<lambda>name.
                  if length (sort_key row_date
                                (filter (\<lambda>r. row_location_key r = name) (tbl_rows data)))
                     < sequence_length + 1
                  then []
                  else windows (sort_key row_date
                                (filter (\<lambda>r. row_location_key r = name) (tbl_rows data))))
                (sort (remdups (map row_location_key (tbl_rows data))))) = []"
    using s by (simp del: length_sort set_sort set_remdups)
  show ?thesis unfolding prepare_time_series_data_def Let_def c by simp
qed

lemma train_time_series_insufficient:
  "insufficient_data data \<Longrightarrow> train_time_series_model L eng data = (None, eng)"
  by (simp add: train_time_series_model_def prepare_insufficient)

lemma train_step_other:
  "fst step \<noteq> k \<Longrightarrow> trained_models (train_step data now a step) k = trained_models a k"
  by (simp add: train_step_def Let_def)

lemma classifier_models:
  "models (snd (train_issue_classifier L eng data)) k =
     (if k = ''issue_classifier'' then
        (case fst (train_issue_classifier L eng data) of None \<Rightarrow> models eng k | Some m \<Rightarrow> Some m)
      else models eng k)"
  by (auto simp: train_issue_classifier_def split: option.splits)

lemma regressor_models:
  "models (snd (train_risk_regressor L eng data)) k =
     (if k = ''risk_regressor'' then
        (case fst (train_risk_regressor L eng data) of None \<Rightarrow> models eng k | Some m \<Rightarrow> Some m)
      else models eng k)"
  by (auto simp: train_risk_regressor_def split: option.splits)

lemma anomaly_models:
  "models (snd (train_anomaly_detector L eng data)) k =
     (if k = ''anomaly_detector'' then
        (case fst (train_anomaly_detector L eng data) of None \<Rightarrow> models eng k | Some m \<Rightarrow> Some m)
      else models eng k)"
  by (auto simp: train_anomaly_detector_def split: option.splits)

text \<open>
  C7. When no location group of the training table reaches the window length 8, the
  training of the sequence forecaster returns \<^verbatim>\<open>None\<close> without raising and leaves the
  engine as it was; after the training task the engine's models hold the classifier,
  the regressor and the outlier detector whenever their own training returned a model,
  and hold no new sequence forecaster. The dictionary \<^verbatim>\<open>trained_models\<close> of main.py,
  however, holds the key \<^verbatim>\<open>time_series\<close> with the value \<^verbatim>\<open>None\<close>, and
  \<^verbatim>\<open>model_last_updated\<close> holds a time for it.
\<close>

theorem sequence_forecaster_insufficient_data:
  assumes "insufficient_data data"
  shows "train_time_series_model L eng data = (None, eng)
       \<and> models (ml_models (train_models_task L data now a)) ''time_series''
           = models (ml_models a) ''time_series''
       \<and> trained_models (train_models_task L data now a) ''time_series'' = Some None
       \<and> model_last_updated (train_models_task L data now a) ''time_series'' = Some now
       \<and> models (ml_models (train_models_task L data now a)) ''issue_classifier''
           = (case fst (train_issue_classifier L (ml_models a) data) of
                None \<Rightarrow> models (ml_models a) ''issue_classifier'' | Some m \<Rightarrow> Some m)
       \<and> models (ml_models (train_models_task L data now a)) ''risk_regressor''
           = (case fst (train_risk_regressor L
                          (snd (train_issue_classifier L (ml_models a) data)) data) of
                None \<Rightarrow> models (ml_models a) ''risk_regressor'' | Some m \<Rightarrow> Some m)
       \<and> models (ml_models (train_models_task L data now a)) ''anomaly_detector''
           = (case fst (train_anomaly_detector L
                          (snd (train_risk_regressor L
                             (snd (train_issue_classifier L (ml_models a) data)) data)) data) of
                None \<Rightarrow> models (ml_models a) ''anomaly_detector'' | Some m \<Rightarrow> Some m)"
  using train_time_series_insufficient [OF assms]
  by (simp add: train_models_task_def train_step_def Let_def classifier_models regressor_models
      anomaly_models cong: option.case_cong)

lemma short_table_insufficient: "insufficient_data short_table"
  by (simp add: insufficient_data_def short_table_def sequence_length_def)

text \<open>
  The theorem at a table of three rows of one location, in a fresh process: the
  placeholder is stored in \<^verbatim>\<open>trained_models\<close>, the engine has no sequence forecaster,
  and the regressor and the outlier detector are there.
\<close>

theorem sequence_forecaster_insufficient_data_witness:
  "train_time_series_model demo_learners empty_engine short_table = (None, empty_engine)
   \<and> trained_models (train_models_task demo_learners short_table 1 fresh_app) ''time_series''
       = Some None
   \<and> models (ml_models (train_models_task demo_learners short_table 1 fresh_app)) ''time_series''
       = None
   \<and> models (ml_models (train_models_task demo_learners short_table 1 fresh_app))
        ''risk_regressor'' = Some (Regressor (\<lambda>x. Some 0.5))
   \<and> models (ml_models (train_models_task demo_learners short_table 1 fresh_app))
        ''anomaly_detector'' = Some OutlierDetector"
  using sequence_forecaster_insufficient_data [OF short_table_insufficient,
          of demo_learners empty_engine 1 fresh_app]
  by (simp add: fresh_app_def empty_engine_def demo_learners_def short_table_def
      train_issue_classifier_def train_risk_regressor_def train_anomaly_detector_def)







end
